theory Spec2Isabelle
  imports Complex_Main "HOL-Library.Sublist" "HOL-Library.Multiset"
begin

section \<open>Strings\<close>

text \<open>
  A JavaScript string is modelled as an Isabelle \<open>string\<close>: each \<open>char\<close> stands for one
  code unit in the range 0..255 (ASCII and Latin-1), which is the text all statements below
  range over. The helpers of this section are the built-in string operations the services call:
  \<open>includes\<close>, \<open>startsWith\<close>, \<open>toLowerCase\<close>, \<open>trim\<close>, \<open>substring(0, n)\<close> (that is
  \<open>take n\<close>), \<open>replace\<close> and \<open>split\<close> with the regular expressions the source uses.
\<close>

text \<open>\<open>s.includes(k)\<close>: \<open>k\<close> occurs in \<open>s\<close> as a contiguous block.\<close>

fun includesStr :: "string \<Rightarrow> string \<Rightarrow> bool" where
  "includesStr [] k = (k = [])"
| "includesStr (c # cs) k = (prefix k (c # cs) \<or> includesStr cs k)"

definition startsWith :: "string \<Rightarrow> string \<Rightarrow> bool" where
  "startsWith s k = prefix k s"

text \<open>
  \<open>toLowerCase\<close> on code units below 256: the letters A-Z and the Latin-1 capitals
  (192..222 without the multiplication sign 215) move up by 32, every other unit stays.
\<close>

definition toLowerChar :: "char \<Rightarrow> char" where
  "toLowerChar c =
     (let n = (of_char c :: nat)
      in if (65 \<le> n \<and> n \<le> 90) \<or> (192 \<le> n \<and> n \<le> 222 \<and> n \<noteq> 215)
         then char_of (n + 32) else c)"

definition toLowerCase :: "string \<Rightarrow> string" where
  "toLowerCase s = map toLowerChar s"

text \<open>The class \<open>\s\<close> below 256: tab, line feed, vertical tab, form feed, carriage return,
  space and the no-break space.\<close>

definition isSpace :: "char \<Rightarrow> bool" where
  "isSpace c = ((of_char c :: nat) \<in> {9, 10, 11, 12, 13, 32, 160})"

text \<open>The class \<open>\w\<close>: ASCII letters, digits and the underscore.\<close>

definition isWordChar :: "char \<Rightarrow> bool" where
  "isWordChar c =
     (let n = (of_char c :: nat)
      in (48 \<le> n \<and> n \<le> 57) \<or> (65 \<le> n \<and> n \<le> 90) \<or> (97 \<le> n \<and> n \<le> 122) \<or> n = 95)"

text \<open>The class \<open>[a-z0-9]\<close>.\<close>

definition isLowerAlnum :: "char \<Rightarrow> bool" where
  "isLowerAlnum c =
     (let n = (of_char c :: nat)
      in (48 \<le> n \<and> n \<le> 57) \<or> (97 \<le> n \<and> n \<le> 122))"

definition trim :: "string \<Rightarrow> string" where
  "trim s = rev (dropWhile isSpace (rev (dropWhile isSpace s)))"

text \<open>\<open>s.replace(/\s+/g, ' ')\<close>: every maximal run of white space becomes one space.\<close>

function collapseSpaces :: "string \<Rightarrow> string" where
  "collapseSpaces [] = []"
| "collapseSpaces (c # cs) =
     (if isSpace c then CHR '' '' # collapseSpaces (dropWhile isSpace cs)
      else c # collapseSpaces cs)"
  by pat_completeness auto
termination
  by (relation "measure length") (auto simp: length_dropWhile_le less_Suc_eq_le)

text \<open>\<open>s.replace(pat, '')\<close> with a string pattern: the first occurrence of \<open>pat\<close> is removed.\<close>

fun removeFirst :: "string \<Rightarrow> string \<Rightarrow> string" where
  "removeFirst pat [] = []"
| "removeFirst pat (c # cs) =
     (if prefix pat (c # cs) then drop (length pat) (c # cs) else c # removeFirst pat cs)"

text \<open>\<open>s.split(/\s+/)\<close>: the pieces between maximal runs of white space; a run at either end
  leaves an empty piece there, and the empty string gives one empty piece.\<close>

function splitSpaces :: "string \<Rightarrow> string list" where
  "splitSpaces s =
     (let tok = takeWhile (\<lambda>c. \<not> isSpace c) s;
          rest = dropWhile (\<lambda>c. \<not> isSpace c) s
      in if rest = [] then [tok] else tok # splitSpaces (dropWhile isSpace rest))"
  by pat_completeness auto
termination
proof (relation "measure length", simp, goal_cases)
  case (1 s tok rest)
  then obtain c cs where rest: "rest = c # cs" and c: "isSpace c"
    by (metis hd_dropWhile list.exhaust list.sel(1))
  have "length (dropWhile isSpace rest) \<le> length cs"
    using rest c by (simp add: length_dropWhile_le)
  moreover have "length rest \<le> length s"
    using 1 by (simp add: length_dropWhile_le)
  ultimately show ?case using rest by simp
qed

declare splitSpaces.simps [simp del]

section \<open>Content classifier (redhatContentService.js)\<close>

datatype ContentType = Video | Documentation | Training | Article | Pdf | Unknown

text \<open>The string each label is in the source.\<close>

fun typeLabel :: "ContentType \<Rightarrow> string" where
  "typeLabel Video = ''video''"
| "typeLabel Documentation = ''documentation''"
| "typeLabel Training = ''training''"
| "typeLabel Article = ''article''"
| "typeLabel Pdf = ''pdf''"
| "typeLabel Unknown = ''unknown''"

definition contentTypeLabels :: "string list" where
  "contentTypeLabels =
     [''video'', ''documentation'', ''training'', ''article'', ''pdf'', ''unknown'']"

text \<open>\<open>determineContentType(url, title = '')\<close>: \<open>!url\<close> holds of the empty string.\<close>

definition determineContentType :: "string \<Rightarrow> string \<Rightarrow> ContentType" where
  "determineContentType url title =
     (if url = [] then Unknown
      else
        let urlLower = toLowerCase url; titleLower = toLowerCase title
        in if includesStr urlLower ''youtube.com'' \<or> includesStr urlLower ''youtu.be'' then Video
           else if includesStr urlLower ''tv.redhat.com'' then Video
           else if includesStr urlLower ''docs.'' \<or> includesStr urlLower ''documentation''
                   \<or> includesStr urlLower ''access.redhat.com''
                   \<or> includesStr titleLower ''documentation'' \<or> includesStr titleLower ''guide''
             then Documentation
           else if includesStr urlLower ''training'' \<or> includesStr urlLower ''certification''
                   \<or> includesStr urlLower ''course''
                   \<or> includesStr titleLower ''training'' \<or> includesStr titleLower ''certification''
                   \<or> includesStr titleLower ''course''
             then Training
           else if includesStr urlLower ''.pdf'' then Pdf
           else if includesStr titleLower ''video'' \<or> includesStr titleLower ''tutorial''
                   \<or> includesStr titleLower ''demo''
             then Video
           else Article)"

definition redhatKeywords :: "string list" where
  "redhatKeywords =
     [''red hat'', ''redhat'', ''openshift'', ''ansible'', ''rhel'',
      ''fedora'', ''centos'', ''jboss'', ''wildfly'', ''ceph'',
      ''gluster'', ''satellite'', ''insights'', ''quay'', ''tekton'']"

definition redhatDomains :: "string list" where
  "redhatDomains =
     [''redhat.com'', ''tv.redhat.com'', ''access.redhat.com'',
      ''docs.redhat.com'', ''docs.ansible.com'', ''console.redhat.com'',
      ''catalog.redhat.com'', ''developers.redhat.com'']"

text \<open>\<open>xs.some(p)\<close> is \<open>list_ex p xs\<close>.\<close>

definition hasRedHatKeywords :: "string \<Rightarrow> string \<Rightarrow> string \<Rightarrow> bool" where
  "hasRedHatKeywords title url description =
     list_ex (\<lambda>keyword. includesStr (toLowerCase (title @ '' '' @ url @ '' '' @ description)) keyword)
       redhatKeywords"

definition hasRedHatDomain :: "string \<Rightarrow> bool" where
  "hasRedHatDomain url = list_ex (\<lambda>domain. includesStr (toLowerCase url) domain) redhatDomains"

definition isRedHatRelated :: "string \<Rightarrow> string \<Rightarrow> string \<Rightarrow> bool" where
  "isRedHatRelated title url description =
     (if includesStr url ''youtube.com''
      then hasRedHatKeywords title url description \<and>
           (includesStr (toLowerCase title) ''red hat'' \<or>
            includesStr (toLowerCase description) ''red hat'' \<or>
            includesStr (toLowerCase title) ''openshift'' \<or>
            includesStr (toLowerCase title) ''ansible'')
      else hasRedHatKeywords title url description \<or> hasRedHatDomain url)"

text \<open>
  The relevance rule in the words of the specification, for comparison with the code: on the
  video-hosting domain the brand name or one of the two flagship product names has to occur
  in the title or in the description, in addition to the general rule.
\<close>

definition isRelated_spec :: "string \<Rightarrow> string \<Rightarrow> string \<Rightarrow> bool" where
  "isRelated_spec title url description =
     (let general = (hasRedHatKeywords title url description \<or> hasRedHatDomain url);
          inTitleOrDescription = (\<lambda>name. includesStr (toLowerCase title) name \<or>
                                           includesStr (toLowerCase description) name)
      in if includesStr url ''youtube.com''
         then general \<and> (inTitleOrDescription ''red hat'' \<or> inTitleOrDescription ''openshift''
                          \<or> inTitleOrDescription ''ansible'')
         else general)"

text \<open>\<open>cleanTitle\<close>: the characters kept by \<open>[^\w\s\-\(\)\[\]\.,:;!?'"]\<close>.\<close>

definition isTitleChar :: "char \<Rightarrow> bool" where
  "isTitleChar c =
     (isWordChar c \<or> isSpace c \<or>
      (of_char c :: nat) \<in> {45, 40, 41, 91, 93, 46, 44, 58, 59, 33, 63, 39, 34})"

definition cleanTitle :: "string \<Rightarrow> string" where
  "cleanTitle title = trim (filter isTitleChar (collapseSpaces title))"

text \<open>\<open>cleanDescription\<close>: a leading \<open>...\<close> goes with the white space after it, a trailing
  \<open>...\<close> with the white space before it.\<close>

definition stripLeadingEllipsis :: "string \<Rightarrow> string" where
  "stripLeadingEllipsis s =
     (if prefix ''...'' s then dropWhile isSpace (drop 3 s) else s)"

definition stripTrailingEllipsis :: "string \<Rightarrow> string" where
  "stripTrailingEllipsis s =
     (if suffix ''...'' s then rev (dropWhile isSpace (rev (take (length s - 3) s))) else s)"

definition cleanDescription :: "string \<Rightarrow> string" where
  "cleanDescription description =
     trim (stripTrailingEllipsis (stripLeadingEllipsis (collapseSpaces description)))"

section \<open>Result aggregator (redhatContentService.js)\<close>

record ContentResult =
  title :: string
  url :: string
  description :: string
  type :: ContentType
  source :: string
  searchQuery :: string
  domain :: string

text \<open>
  \<open>extractDomain\<close> asks the platform's URL parser for the host name. The parser is not code of
  this repository, so it is a parameter: \<open>urlHostname u\<close> is \<open>Some\<close> of
  \<open>new URL(u).hostname\<close>, and \<open>None\<close> where the constructor throws.
\<close>

definition extractDomain :: "(string \<Rightarrow> string option) \<Rightarrow> string \<Rightarrow> string" where
  "extractDomain urlHostname u =
     (case urlHostname u of Some host \<Rightarrow> toLowerCase host | None \<Rightarrow> ''unknown'')"

definition normalizedTitle :: "string \<Rightarrow> string" where
  "normalizedTitle t =
     trim (collapseSpaces (filter (\<lambda>c. isLowerAlnum c \<or> isSpace c) (toLowerCase t)))"

definition dedupKey :: "(string \<Rightarrow> string option) \<Rightarrow> ContentResult \<Rightarrow> string" where
  "dedupKey urlHostname result =
     take 50 (normalizedTitle (title result)) @ ''-'' @ extractDomain urlHostname (url result)"

text \<open>The \<open>for\<close> loop of \<open>deduplicateResults\<close>, with its two mutable variables passed along.\<close>

fun dedupLoop ::
  "(string \<Rightarrow> string option) \<Rightarrow> ContentResult list \<Rightarrow> string set \<Rightarrow> ContentResult list
     \<Rightarrow> ContentResult list" where
  "dedupLoop urlHostname [] seen uniqueResults = uniqueResults"
| "dedupLoop urlHostname (result # results) seen uniqueResults =
     (if title result = [] \<or> url result = []
      then dedupLoop urlHostname results seen uniqueResults
      else
        let key = dedupKey urlHostname result
        in if key \<in> seen then dedupLoop urlHostname results seen uniqueResults
           else dedupLoop urlHostname results (insert key seen) (uniqueResults @ [result]))"

definition typeOrder :: "(string \<times> nat) list" where
  "typeOrder =
     [(''video'', 1), (''training'', 2), (''documentation'', 3), (''article'', 4), (''pdf'', 5)]"

text \<open>\<open>typeOrder[a.type] || 6\<close>.\<close>

definition typeOrderOf :: "ContentType \<Rightarrow> nat" where
  "typeOrderOf t = (case map_of typeOrder (typeLabel t) of Some n \<Rightarrow> n | None \<Rightarrow> 6)"

definition isRedHatDomain :: "ContentResult \<Rightarrow> bool" where
  "isRedHatDomain a = includesStr (domain a) ''redhat.com''"

text \<open>The comparator handed to \<open>sort\<close>.\<close>

definition compareResults :: "ContentResult \<Rightarrow> ContentResult \<Rightarrow> int" where
  "compareResults a b =
     (let aIsRedHatDomain = isRedHatDomain a; bIsRedHatDomain = isRedHatDomain b
      in if aIsRedHatDomain \<and> \<not> bIsRedHatDomain then - 1
         else if \<not> aIsRedHatDomain \<and> bIsRedHatDomain then 1
         else int (typeOrderOf (type a)) - int (typeOrderOf (type b)))"

text \<open>
  \<open>Array.prototype.sort\<close> is a stable sort. It is modelled by insertion from the right, where
  an element goes in front of the first element it does not compare greater than, so that
  elements comparing equal keep their order.
\<close>

fun insertSorted :: "('a \<Rightarrow> 'a \<Rightarrow> int) \<Rightarrow> 'a \<Rightarrow> 'a list \<Rightarrow> 'a list" where
  "insertSorted cmp x [] = [x]"
| "insertSorted cmp x (y # ys) =
     (if cmp x y \<le> 0 then x # y # ys else y # insertSorted cmp x ys)"

definition sortWith :: "('a \<Rightarrow> 'a \<Rightarrow> int) \<Rightarrow> 'a list \<Rightarrow> 'a list" where
  "sortWith cmp xs = foldr (insertSorted cmp) xs []"

text \<open>\<open>uniqueResults\<close> is the list the loop leaves, before it is sorted.\<close>

definition uniqueResults ::
  "(string \<Rightarrow> string option) \<Rightarrow> ContentResult list \<Rightarrow> ContentResult list" where
  "uniqueResults urlHostname results = dedupLoop urlHostname results {} []"

definition deduplicateResults ::
  "(string \<Rightarrow> string option) \<Rightarrow> ContentResult list \<Rightarrow> ContentResult list" where
  "deduplicateResults urlHostname results =
     sortWith compareResults (uniqueResults urlHostname results)"

subsection \<open>Notions used to state the properties of the aggregator\<close>

text \<open>A result passes the guard of the loop when its title and its URL are non-empty.\<close>

definition retainable :: "ContentResult \<Rightarrow> bool" where
  "retainable r = (title r \<noteq> [] \<and> url r \<noteq> [])"

text \<open>Keeping the first element for each key, given the keys already seen.\<close>

fun keepFirst :: "('a \<Rightarrow> 'k) \<Rightarrow> 'k set \<Rightarrow> 'a list \<Rightarrow> 'a list" where
  "keepFirst f seen [] = []"
| "keepFirst f seen (x # xs) =
     (if f x \<in> seen then keepFirst f seen xs else x # keepFirst f (insert (f x) seen) xs)"

text \<open>The comparator orders by this number: the tier first, the type priority within it.\<close>

definition sortRank :: "ContentResult \<Rightarrow> nat" where
  "sortRank r = (if isRedHatDomain r then 0 else 6) + typeOrderOf (type r)"

section \<open>Topic extractor (redhatContentService.js)\<close>

definition topicKeywords :: "(string \<times> string list) list" where
  "topicKeywords =
     [(''openshift'', [''openshift'', ''kubernetes'', ''k8s'', ''containers'', ''orchestration'',
                      ''pods'', ''deployment'']),
      (''ansible'', [''ansible'', ''automation'', ''playbook'', ''configuration management'',
                    ''infrastructure as code'']),
      (''rhel'', [''rhel'', ''red hat enterprise linux'', ''linux'', ''system administration'',
                 ''centos'', ''fedora'']),
      (''ai'', [''ai'', ''artificial intelligence'', ''machine learning'', ''ml'',
               ''data science'', ''neural networks'']),
      (''cloud'', [''cloud'', ''aws'', ''azure'', ''gcp'', ''hybrid cloud'', ''multi-cloud'',
                  ''cloud native'']),
      (''security'', [''security'', ''selinux'', ''compliance'', ''vulnerability'',
                     ''cybersecurity'', ''encryption'']),
      (''networking'', [''networking'', ''network'', ''tcp'', ''ip'', ''dns'', ''firewall'',
                       ''load balancer'']),
      (''storage'', [''storage'', ''ceph'', ''gluster'', ''persistent volume'', ''block storage'',
                    ''object storage'']),
      (''monitoring'', [''monitoring'', ''prometheus'', ''grafana'', ''observability'',
                       ''metrics'', ''alerting'']),
      (''devops'', [''devops'', ''ci/cd'', ''pipeline'', ''deployment'',
                   ''continuous integration'', ''gitops'']),
      (''virtualization'', [''virtualization'', ''vm'', ''virtual machine'', ''hypervisor'',
                           ''kvm'', ''qemu'']),
      (''middleware'', [''middleware'', ''jboss'', ''wildfly'', ''apache'', ''tomcat'',
                       ''application server''])]"

definition stopwords :: "string list" where
  "stopwords =
     [''want'', ''learn'', ''need'', ''help'', ''with'', ''about'', ''from'', ''that'', ''this'',
      ''they'', ''have'', ''will'', ''been'']"

text \<open>The loop over \<open>Object.entries(topicKeywords)\<close>, which visits the buckets in the order they
  are written.\<close>

fun matchLoop :: "string \<Rightarrow> (string \<times> string list) list \<Rightarrow> string list \<Rightarrow> string list" where
  "matchLoop input [] topics = topics"
| "matchLoop input ((topic, keywords) # rest) topics =
     matchLoop input rest
       (if list_ex (\<lambda>keyword. includesStr input keyword) keywords then topics @ [topic]
        else topics)"

text \<open>\<open>[...new Set(topics)]\<close>: a set lists its members in the order they were first added.\<close>

fun setOrder :: "'a list \<Rightarrow> 'a list \<Rightarrow> 'a list" where
  "setOrder [] members = members"
| "setOrder (x # xs) members = setOrder xs (if x \<in> set members then members else members @ [x])"

definition meaningfulWords :: "string \<Rightarrow> string list" where
  "meaningfulWords input =
     filter (\<lambda>word. word \<notin> set stopwords) (filter (\<lambda>word. length word > 3) (splitSpaces input))"

definition extractTopics :: "string \<Rightarrow> string list" where
  "extractTopics userInput =
     (let input = toLowerCase userInput;
          topics = matchLoop input topicKeywords [];
          topics = (if topics = [] then take 3 (meaningfulWords input) else topics)
      in setOrder topics [])"

text \<open>A bucket matches when one of its keywords occurs in the lowercased input.\<close>

definition bucketMatches :: "string \<Rightarrow> string \<times> string list \<Rightarrow> bool" where
  "bucketMatches userInput bucket =
     list_ex (\<lambda>keyword. includesStr (toLowerCase userInput) keyword) (snd bucket)"

definition matchedBuckets :: "string \<Rightarrow> string list" where
  "matchedBuckets userInput = map fst (filter (bucketMatches userInput) topicKeywords)"

section \<open>Search client (redhatContentService.js)\<close>

text \<open>
  What the HTML library reports for one result block: the text and the \<open>href\<close> of the first
  title link (\<open>.result__title a, .result-title a\<close>), the text of the first snippet
  (\<open>.result__snippet, .snippet\<close>), the text and the \<open>href\<close> of the first link, and the text of
  the whole block. A text is empty and an \<open>href\<close> is \<open>None\<close> where nothing is selected.
\<close>

record element =
  titleLinkText :: string
  titleLinkHref :: "string option"
  snippetText :: string
  firstLinkText :: string
  firstLinkHref :: "string option"
  elementText :: string

text \<open>A loaded page gives, for each selector, the blocks it selects in document order.\<close>

type_synonym page = "string \<Rightarrow> element list"

text \<open>
  The parts of the platform the search client calls:
  \<^item> \<open>urlHostname\<close>, as for \<open>extractDomain\<close>;
  \<^item> \<open>decodeUddg u\<close>, the value of
    \<open>decodeURIComponent(new URLSearchParams(u.split('?')[1]).get('uddg'))\<close>, \<open>None\<close> where it
    throws;
  \<^item> \<open>maxResults\<close>, the configured bound;
  \<^item> \<open>httpGet query\<close>, the outcome of the delay, the request for \<open>query\<close> and the loading of
    the answer: \<open>Inr\<close> of the page, or \<open>Inl\<close> of the message of the error thrown.
\<close>

record platform =
  urlHostname :: "string \<Rightarrow> string option"
  decodeUddg :: "string \<Rightarrow> string option"
  maxResults :: nat
  httpGet :: "string \<Rightarrow> string + page"

text \<open>A missing \<open>href\<close> and an empty one are both falsy.\<close>

definition truthyHref :: "string option \<Rightarrow> bool" where
  "truthyHref href = (case href of None \<Rightarrow> False | Some u \<Rightarrow> u \<noteq> [])"

text \<open>The clean-up of the URL; \<open>None\<close> is \<open>null\<close> or \<open>undefined\<close>.\<close>

definition cleanUrl :: "platform \<Rightarrow> string option \<Rightarrow> string option" where
  "cleanUrl env href =
     (case href of
        None \<Rightarrow> None
      | Some u \<Rightarrow>
          if u = [] then Some u
          else if startsWith u ''/l/?uddg='' then decodeUddg env u
          else if startsWith u ''/'' then Some (''https://duckduckgo.com'' @ u)
          else Some u)"

text \<open>The callback of \<open>each\<close>: the result it pushes for one block, if any.\<close>

definition processElement :: "platform \<Rightarrow> string \<Rightarrow> string \<Rightarrow> element \<Rightarrow> ContentResult option" where
  "processElement env query src e =
     (let t0 = trim (titleLinkText e);
          d0 = trim (snippetText e);
          t = (if t0 = [] then trim (firstLinkText e) else t0);
          href = (if truthyHref (titleLinkHref e) then titleLinkHref e else firstLinkHref e);
          d = (if d0 = [] then take 200 (trim (removeFirst t (elementText e))) else d0)
      in case cleanUrl env href of
           None \<Rightarrow> None
         | Some u \<Rightarrow>
             if t \<noteq> [] \<and> u \<noteq> [] \<and> isRedHatRelated t u d
             then Some \<lparr>title = cleanTitle t, url = u, description = cleanDescription d,
                        type = determineContentType u t, source = src, searchQuery = query,
                        domain = extractDomain (urlHostname env) u\<rparr>
             else None)"

definition resultSelectors :: "string list" where
  "resultSelectors = [''.result'', ''.results_links'', ''.result__body'']"

text \<open>The loop over the selectors: it stops after the first selector that gave a result, and
  looks at no more than \<open>maxResults\<close> blocks of a selector.\<close>

fun selectorLoop ::
  "platform \<Rightarrow> string \<Rightarrow> string \<Rightarrow> page \<Rightarrow> string list \<Rightarrow> ContentResult list \<Rightarrow> bool
     \<Rightarrow> ContentResult list" where
  "selectorLoop env query src pg [] results foundResults = results"
| "selectorLoop env query src pg (selector # selectors) results foundResults =
     (if foundResults then results
      else
        let pushed = List.map_filter (processElement env query src)
                       (take (maxResults env) (pg selector))
        in selectorLoop env query src pg selectors (results @ pushed) (pushed \<noteq> []))"

text \<open>
  \<open>performDuckDuckGoSearch\<close>: the \<open>catch\<close> block logs the error and has no \<open>return\<close>, so the
  function then returns \<open>undefined\<close>, which is \<open>None\<close> here.
\<close>

definition performDuckDuckGoSearch :: "platform \<Rightarrow> string \<Rightarrow> string \<Rightarrow> ContentResult list option" where
  "performDuckDuckGoSearch env query src =
     (case httpGet env query of
        Inl err \<Rightarrow> None
      | Inr pg \<Rightarrow> Some (selectorLoop env query src pg resultSelectors [] False))"

text \<open>The queries of the three category searches for one topic.\<close>

definition docsQueries :: "string \<Rightarrow> string list" where
  \<open>docsQueries topic = [''"Red Hat" "'' @ topic @ ''" documentation'']\<close>

definition trainingQueries :: "string \<Rightarrow> string list" where
  \<open>trainingQueries topic =
     [''"Red Hat training" "'' @ topic @ ''"'', ''"Red Hat certification" "'' @ topic @ ''"'']\<close>

definition videoQueries :: "string \<Rightarrow> string list" where
  \<open>videoQueries topic = [''site:tv.redhat.com "'' @ topic @ ''"'']\<close>

text \<open>
  How a block of statements ends: normally, or by throwing. The loop over the queries of one
  topic runs inside the \<open>try\<close> of that topic. \<open>searchResults.push(...results)\<close> throws a
  \<open>TypeError\<close> when \<open>results\<close> is \<open>undefined\<close>; what was pushed before stays in
  \<open>searchResults\<close>.
\<close>

datatype completion = Normal | Thrown

fun queryLoop ::
  "platform \<Rightarrow> string \<Rightarrow> string list \<Rightarrow> ContentResult list \<Rightarrow> ContentResult list \<times> completion" where
  "queryLoop env src [] searchResults = (searchResults, Normal)"
| "queryLoop env src (query # queries) searchResults =
     (case performDuckDuckGoSearch env query src of
        None \<Rightarrow> (searchResults, Thrown)
      | Some results \<Rightarrow> queryLoop env src queries (searchResults @ results))"

text \<open>The loop over the topics: the \<open>catch\<close> of a topic logs the error, and the loop goes on
  with the next topic.\<close>

fun topicLoop ::
  "platform \<Rightarrow> string \<Rightarrow> (string \<Rightarrow> string list) \<Rightarrow> string list \<Rightarrow> ContentResult list
     \<Rightarrow> ContentResult list" where
  "topicLoop env src queriesFor [] searchResults = searchResults"
| "topicLoop env src queriesFor (topic # topics) searchResults =
     topicLoop env src queriesFor topics (fst (queryLoop env src (queriesFor topic) searchResults))"

definition searchRedHatDocs :: "platform \<Rightarrow> string list \<Rightarrow> ContentResult list" where
  "searchRedHatDocs env topics =
     deduplicateResults (urlHostname env) (topicLoop env ''Red Hat Docs'' docsQueries topics [])"

definition searchRedHatTraining :: "platform \<Rightarrow> string list \<Rightarrow> ContentResult list" where
  "searchRedHatTraining env topics =
     deduplicateResults (urlHostname env)
       (topicLoop env ''Red Hat Training'' trainingQueries topics [])"

definition searchRedHatVideos :: "platform \<Rightarrow> string list \<Rightarrow> ContentResult list" where
  "searchRedHatVideos env topics =
     deduplicateResults (urlHostname env) (topicLoop env ''Red Hat Videos'' videoQueries topics [])"

section \<open>Learning path generator (llmService.js)\<close>

text \<open>
  The values \<open>JSON.parse\<close> returns. A number is a rational, or an infinity (\<open>True\<close> for the
  positive one) where the literal overflows; an object lists its properties, each name once.
\<close>

datatype json =
    JNull
  | JBool bool
  | JNumber rat
  | JInfinity bool
  | JString string
  | JArray "json list"
  | JObject "(string \<times> json) list"

text \<open>Reading a property of a value other than \<open>null\<close>; \<open>None\<close> is \<open>undefined\<close>. Only an
  object has the properties read here.\<close>

fun getProperty :: "json \<Rightarrow> string \<Rightarrow> json option" where
  "getProperty (JObject properties) name = map_of properties name"
| "getProperty v name = None"

fun truthy :: "json option \<Rightarrow> bool" where
  "truthy None = False"
| "truthy (Some JNull) = False"
| "truthy (Some (JBool b)) = b"
| "truthy (Some (JNumber n)) = (n \<noteq> 0)"
| "truthy (Some (JInfinity s)) = True"
| "truthy (Some (JString s)) = (s \<noteq> [])"
| "truthy (Some (JArray xs)) = True"
| "truthy (Some (JObject properties)) = True"

text \<open>\<open>s.match(/\{[\s\S]*\}/)\<close>: from the first opening brace to the last closing brace after
  it, if there is one.\<close>

definition matchBraces :: "string \<Rightarrow> string option" where
  "matchBraces s =
     (let fromBrace = dropWhile (\<lambda>c. c \<noteq> CHR ''{'') s
      in if fromBrace = [] then None
         else
           let afterLast = takeWhile (\<lambda>c. c \<noteq> CHR ''}'') (rev (tl fromBrace))
           in if length afterLast = length (tl fromBrace) then None
              else Some (take (length fromBrace - length afterLast) fromBrace))"

text \<open>The fallback object of the \<open>catch\<close> block.\<close>

definition fallbackLearningPath :: "string \<Rightarrow> string \<Rightarrow> json" where
  "fallbackLearningPath response message =
     JObject
       [(''title'', JString ''Custom Red Hat Learning Path''),
        (''description'', JString ''A personalized learning path based on your interests''),
        (''totalEstimatedTime'', JString ''4-8 weeks''),
        (''difficultyLevel'', JString ''Intermediate''),
        (''prerequisites'', JArray [JString ''Basic Linux knowledge'']),
        (''learningObjectives'', JArray [JString ''Gain proficiency in Red Hat technologies'']),
        (''phases'', JArray
           [JObject
              [(''phase'', JNumber 1),
               (''title'', JString ''Foundation Phase''),
               (''description'', JString ''Build foundational knowledge''),
               (''estimatedTime'', JString ''2-3 weeks''),
               (''difficulty'', JString ''Beginner''),
               (''resources'', JArray []),
               (''practiceActivities'',
                  JArray [JString ''Hands-on labs'', JString ''Practice exercises'']),
               (''assessmentCriteria'',
                  JArray [JString ''Complete all resources'',
                          JString ''Demonstrate basic understanding''])]]),
        (''certificationPath'', JObject
           [(''recommended'', JArray [JString ''Red Hat Certified System Administrator (RHCSA)'']),
            (''sequence'', JArray [JString ''Start with RHCSA foundation''])]),
        (''nextSteps'', JArray [JString ''Continue with advanced topics'',
                                JString ''Pursue additional certifications'']),
        (''rawResponse'', JString response),
        (''parseError'', JString message)]"

text \<open>
  The \<open>try\<close> block of \<open>parseLearningPathResponse\<close>: \<open>Inl\<close> carries the message of the error
  thrown. \<open>jsonParse\<close> stands for \<open>JSON.parse\<close>, a parameter as it is not code of this
  repository: \<open>Inr\<close> of the value, or \<open>Inl\<close> of the message of the \<open>SyntaxError\<close>.
\<close>

definition cleanResponse :: "string \<Rightarrow> string" where
  "cleanResponse response =
     (case matchBraces (trim response) of
        Some jsonMatch \<Rightarrow> jsonMatch
      | None \<Rightarrow> trim response)"

definition parseAttempt :: "(string \<Rightarrow> string + json) \<Rightarrow> string \<Rightarrow> string + json" where
  \<open>parseAttempt jsonParse response =
     (case jsonParse (cleanResponse response) of
        Inl message \<Rightarrow> Inl message
      | Inr JNull \<Rightarrow> Inl ''Cannot read properties of null (reading 'title')''
      | Inr parsed \<Rightarrow>
          if \<not> truthy (getProperty parsed ''title'') \<or> \<not> truthy (getProperty parsed ''phases'')
          then Inl ''Invalid learning path structure''
          else Inr parsed)\<close>

definition parseLearningPathResponse :: "(string \<Rightarrow> string + json) \<Rightarrow> string \<Rightarrow> json" where
  "parseLearningPathResponse jsonParse response =
     (case parseAttempt jsonParse response of
        Inr parsed \<Rightarrow> parsed
      | Inl message \<Rightarrow> fallbackLearningPath response message)"

text \<open>
  One run of the model server, as the service sees it: \<open>listModels\<close> is the outcome of
  \<open>ollama.list()\<close> (the names of the installed models, or the message of the error), and
  \<open>generate\<close> the outcome of \<open>ollama.generate\<close> for the prompt built from the profile and the
  search results (the text of the reply, or the message of the error). The two prompt builders
  only concatenate the fields of the validated profile and of the results, and are not part of
  the model.
\<close>

record ollama =
  listModels :: "string + string list"
  generate :: "string + string"

record health =
  healthy :: bool
  error :: "string option"

definition checkOllamaHealth :: "string \<Rightarrow> ollama \<Rightarrow> health" where
  "checkOllamaHealth model server =
     (case listModels server of
        Inl message \<Rightarrow> \<lparr>healthy = False, error = Some message\<rparr>
      | Inr names \<Rightarrow>
          if list_ex (\<lambda>name. name = model) names then \<lparr>healthy = True, error = None\<rparr>
          else \<lparr>healthy = False, error = Some (''Model '' @ model @ '' not found'')\<rparr>)"

text \<open>\<open>generateLearningPath\<close>: \<open>Inl\<close> carries the message of the error it throws to its
  caller.\<close>

definition generateLearningPath ::
  "(string \<Rightarrow> string + json) \<Rightarrow> string \<Rightarrow> ollama \<Rightarrow> string + json" where
  "generateLearningPath jsonParse model server =
     (let healthCheck = checkOllamaHealth model server
      in if \<not> healthy healthCheck
         then Inl (''Failed to generate learning path: '' @ ''Ollama service unavailable: '' @
                   (case error healthCheck of Some message \<Rightarrow> message | None \<Rightarrow> ''undefined''))
         else
           case generate server of
             Inl message \<Rightarrow> Inl (''Failed to generate learning path: '' @ message)
           | Inr response \<Rightarrow> Inr (parseLearningPathResponse jsonParse response))"

section \<open>Concrete inputs\<close>

text \<open>
  The inputs at which the statements below are evaluated. \<open>exampleHostname\<close> lists what the
  URL parser answers for the URLs that occur in them; no other URL is looked up.
\<close>

definition exampleHostname :: "string \<Rightarrow> string option" where
  "exampleHostname =
     map_of
       [(''https://example.org/videos/intro'', ''example.org''),
        (''https://www.redhat.com/en/topics/containers'', ''www.redhat.com''),
        (''https://www.redhat.com/en'', ''www.redhat.com''),
        (''https://www.redhat.com/en/services/training/do180'', ''www.redhat.com''),
        (''https://docs.ansible.com/ansible/latest/index.html'', ''docs.ansible.com'')]"

definition communityVideo :: ContentResult where
  "communityVideo =
     \<lparr>title = ''Containers video walkthrough'', url = ''https://example.org/videos/intro'',
      description = ''A Red Hat community video'', type = Video, source = ''Red Hat Videos'',
      searchQuery = ''site:tv.redhat.com containers'', domain = ''example.org''\<rparr>"

definition officialArticle :: ContentResult where
  "officialArticle =
     \<lparr>title = ''What are containers'', url = ''https://www.redhat.com/en/topics/containers'',
      description = ''Red Hat explains containers'', type = Article, source = ''Red Hat Docs'',
      searchQuery = ''Red Hat containers'', domain = ''www.redhat.com''\<rparr>"

text \<open>A result of \<open>docs.ansible.com\<close>, one of the domains in the allowlist of
  \<open>isRedHatRelated\<close>.\<close>

definition ansibleDoc :: ContentResult where
  "ansibleDoc =
     \<lparr>title = ''Ansible documentation'',
      url = ''https://docs.ansible.com/ansible/latest/index.html'',
      description = ''Ansible community documentation'', type = Documentation,
      source = ''Red Hat Docs'', searchQuery = ''Red Hat ansible documentation'',
      domain = ''docs.ansible.com''\<rparr>"

text \<open>A result block whose link text consists of characters that \<open>cleanTitle\<close> removes.\<close>

definition arrowBlock :: element where
  "arrowBlock =
     \<lparr>titleLinkText = ''>>'', titleLinkHref = Some ''https://www.redhat.com/en'',
      snippetText = ''Red Hat home'', firstLinkText = ''>>'',
      firstLinkHref = Some ''https://www.redhat.com/en'', elementText = ''>> Red Hat home''\<rparr>"

definition arrowPlatform :: platform where
  "arrowPlatform =
     \<lparr>urlHostname = exampleHostname, decodeUddg = Map.empty, maxResults = 15,
      httpGet = (\<lambda>query. Inr (\<lambda>selector. if selector = ''.result'' then [arrowBlock] else []))\<rparr>"

text \<open>A platform on which the first training query for the topic \<open>openshift\<close> times out and
  every other query finds one course.\<close>

definition courseBlock :: element where
  "courseBlock =
     \<lparr>titleLinkText = ''Red Hat OpenShift Administration'',
      titleLinkHref = Some ''https://www.redhat.com/en/services/training/do180'',
      snippetText = ''Containers and Kubernetes course'',
      firstLinkText = ''Red Hat OpenShift Administration'',
      firstLinkHref = Some ''https://www.redhat.com/en/services/training/do180'',
      elementText = ''Red Hat OpenShift Administration Containers and Kubernetes course''\<rparr>"

definition timeoutPlatform :: platform where
  \<open>timeoutPlatform =
     \<lparr>urlHostname = exampleHostname, decodeUddg = Map.empty, maxResults = 15,
      httpGet = (\<lambda>query. if query = ''"Red Hat training" "openshift"''
                          then Inl ''timeout of 10000ms exceeded''
                          else Inr (\<lambda>selector. if selector = ''.result'' then [courseBlock]
                                                else []))\<rparr>\<close>

text \<open>What \<open>JSON.parse\<close> answers for the texts that occur in the examples: two objects, the
  literal \<open>null\<close>, a sentence, and the empty text, which is also the answer listed for every
  text that does not occur.\<close>

definition exampleJsonParse :: "string \<Rightarrow> string + json" where
  \<open>exampleJsonParse text =
     (if text = ''{"title":"OpenShift path","phases":[]}''
      then Inr (JObject [(''title'', JString ''OpenShift path''), (''phases'', JArray [])])
      else if text = ''{"title":"OpenShift path"}''
      then Inr (JObject [(''title'', JString ''OpenShift path'')])
      else if text = ''null''
      then Inr JNull
      else if text = ''I cannot help with that''
      then Inl ''Unexpected token I in JSON at position 0''
      else Inl ''Unexpected end of JSON input'')\<close>

definition downServer :: ollama where
  "downServer =
     \<lparr>listModels = Inl ''connect ECONNREFUSED 127.0.0.1:11434'', generate = Inl ''fetch failed''\<rparr>"

definition chattyServer :: ollama where
  "chattyServer =
     \<lparr>listModels = Inr [''llama3.2:latest''], generate = Inr ''I cannot help with that''\<rparr>"

definition terseServer :: ollama where
  \<open>terseServer =
     \<lparr>listModels = Inr [''llama3.2:latest''], generate = Inr ''{"title":"OpenShift path"}''\<rparr>\<close>

definition nullServer :: ollama where
  "nullServer = \<lparr>listModels = Inr [''llama3.2:latest''], generate = Inr ''null''\<rparr>"

section \<open>Auxiliary facts\<close>

subsection \<open>Strings\<close>

lemma includesStr_sublist: "includesStr s k \<longleftrightarrow> sublist k s"
  by (induction s) (auto simp: sublist_Cons_right)

lemma includesStr_appendI1: "includesStr a k \<Longrightarrow> includesStr (a @ b) k"
  unfolding includesStr_sublist by (metis sublist_append_rightI sublist_order.order_trans)

lemma includesStr_appendI2: "includesStr b k \<Longrightarrow> includesStr (a @ b) k"
  unfolding includesStr_sublist by (metis sublist_append_leftI sublist_order.order_trans)

lemma toLowerCase_append: "toLowerCase (a @ b) = toLowerCase a @ toLowerCase b"
  by (simp add: toLowerCase_def)

subsection \<open>Relevance\<close>

lemma keyword_in_title:
  assumes "k \<in> set redhatKeywords" "includesStr (toLowerCase t) k"
  shows "hasRedHatKeywords t u d"
  using assms unfolding hasRedHatKeywords_def list_ex_iff toLowerCase_append
  by (blast intro: includesStr_appendI1)

lemma keyword_in_description:
  assumes "k \<in> set redhatKeywords" "includesStr (toLowerCase d) k"
  shows "hasRedHatKeywords t u d"
  using assms unfolding hasRedHatKeywords_def list_ex_iff toLowerCase_append
  by (blast intro: includesStr_appendI2)

subsection \<open>The deduplication loop\<close>

lemma dedupLoop_keepFirst:
  "dedupLoop h rs seen uniq = uniq @ keepFirst (dedupKey h) seen (filter retainable rs)"
  by (induction rs arbitrary: seen uniq) (auto simp: retainable_def Let_def)

lemma uniqueResults_keepFirst:
  "uniqueResults h rs = keepFirst (dedupKey h) {} (filter retainable rs)"
  by (simp add: uniqueResults_def dedupLoop_keepFirst)

lemma keepFirst_subseq: "subseq (keepFirst f seen xs) xs"
  by (induction xs arbitrary: seen) auto

lemma keepFirst_set: "set (keepFirst f seen xs) \<subseteq> set xs"
  by (induction xs arbitrary: seen) auto

lemma keepFirst_fresh: "x \<in> set (keepFirst f seen xs) \<Longrightarrow> f x \<notin> seen"
  by (induction xs arbitrary: seen) (auto split: if_splits)

lemma keepFirst_distinct: "distinct (map f (keepFirst f seen xs))"
  by (induction xs arbitrary: seen) (auto dest: keepFirst_fresh)

lemma keepFirst_id:
  "distinct (map f xs) \<Longrightarrow> f ` set xs \<inter> seen = {} \<Longrightarrow> keepFirst f seen xs = xs"
  by (induction xs arbitrary: seen) auto

lemma keepFirst_seen_key: "k \<in> seen \<Longrightarrow> filter (\<lambda>r. f r = k) (keepFirst f seen xs) = []"
  by (induction xs arbitrary: seen) auto

lemma keepFirst_other_key:
  "k \<noteq> j \<Longrightarrow>
     filter (\<lambda>r. f r = k) (keepFirst f (insert j seen) xs)
       = filter (\<lambda>r. f r = k) (keepFirst f seen xs)"
  by (induction xs arbitrary: seen) (auto simp: insert_commute)

lemma keepFirst_per_key:
  "k \<notin> seen \<Longrightarrow>
     filter (\<lambda>r. f r = k) (keepFirst f seen xs) = take 1 (filter (\<lambda>r. f r = k) xs)"
  by (induction xs arbitrary: seen) (auto simp: keepFirst_seen_key keepFirst_other_key)

subsection \<open>The comparator and the sort\<close>

lemma typeOrderOf_range: "1 \<le> typeOrderOf t \<and> typeOrderOf t \<le> 6"
  by (cases t) (simp_all add: typeOrderOf_def typeOrder_def)

lemma compareResults_rank: "compareResults a b \<le> 0 \<longleftrightarrow> sortRank a \<le> sortRank b"
  using typeOrderOf_range [of "type a"] typeOrderOf_range [of "type b"]
  by (auto simp: compareResults_def sortRank_def Let_def)

lemma insertSorted_insort: "insertSorted compareResults x ys = insort_key sortRank x ys"
  by (induction ys) (simp_all add: compareResults_rank)

lemma sortWith_sort_key: "sortWith compareResults xs = sort_key sortRank xs"
  by (induction xs) (simp_all add: sortWith_def sort_key_def insertSorted_insort)

lemma deduplicateResults_sort_key:
  "deduplicateResults h xs = sort_key sortRank (uniqueResults h xs)"
  by (simp add: deduplicateResults_def sortWith_sort_key)

lemma sortRank_le_tier:
  "sortRank a \<le> sortRank b \<Longrightarrow> isRedHatDomain b \<Longrightarrow> isRedHatDomain a"
  using typeOrderOf_range [of "type a"] typeOrderOf_range [of "type b"]
  by (auto simp: sortRank_def split: if_splits)

lemma sortRank_le_type:
  "sortRank a \<le> sortRank b \<Longrightarrow> isRedHatDomain a = isRedHatDomain b \<Longrightarrow>
     typeOrderOf (type a) \<le> typeOrderOf (type b)"
  by (auto simp: sortRank_def split: if_splits)

lemma rank_filter_eq:
  "(isRedHatDomain r = tier \<and> typeOrderOf (type r) = n) \<longleftrightarrow>
     (1 \<le> n \<and> n \<le> 6 \<and> sortRank r = (if tier then 0 else 6) + n)"
  using typeOrderOf_range [of "type r"]
  by (auto simp: sortRank_def split: if_splits)

lemma deduplicateResults_retainable:
  "r \<in> set (deduplicateResults h xs) \<Longrightarrow> title r \<noteq> [] \<and> url r \<noteq> []"
  using keepFirst_set [of "dedupKey h" "{}" "filter retainable xs"]
  by (auto simp: deduplicateResults_sort_key uniqueResults_keepFirst retainable_def)

lemma deduplicateResults_distinct_keys:
  "distinct (map (dedupKey h) (deduplicateResults h xs))"
proof -
  have "mset (map (dedupKey h) (deduplicateResults h xs))
          = mset (map (dedupKey h) (uniqueResults h xs))"
    by (simp add: deduplicateResults_sort_key)
  then show ?thesis
    using keepFirst_distinct [of "dedupKey h" "{}" "filter retainable xs"]
    by (metis mset_eq_imp_distinct_iff uniqueResults_keepFirst)
qed

subsection \<open>The topic extractor\<close>

lemma matchLoop_filter:
  "matchLoop input buckets topics =
     topics @ map fst (filter (\<lambda>bucket. list_ex (\<lambda>keyword. includesStr input keyword)
                                          (snd bucket)) buckets)"
  by (induction buckets arbitrary: topics) auto

lemma matchLoop_matchedBuckets:
  "matchLoop (toLowerCase s) topicKeywords [] = matchedBuckets s"
  unfolding matchLoop_filter matchedBuckets_def
  by (simp add: bucketMatches_def [abs_def])

lemma setOrder_distinct: "distinct members \<Longrightarrow> distinct (setOrder xs members)"
  by (induction xs arbitrary: members) auto

lemma setOrder_set: "set (setOrder xs members) = set members \<union> set xs"
  by (induction xs arbitrary: members) auto

lemma setOrder_id: "distinct (members @ xs) \<Longrightarrow> setOrder xs members = members @ xs"
  by (induction xs arbitrary: members) auto

lemma setOrder_subseq: "\<exists>ys. setOrder xs members = members @ ys \<and> subseq ys xs"
proof (induction xs arbitrary: members)
  case Nil
  then show ?case by simp
next
  case (Cons x xs)
  show ?case
  proof (cases "x \<in> set members")
    case True
    with Cons [of members] show ?thesis by auto
  next
    case False
    from Cons [of "members @ [x]"] obtain ys
      where "setOrder xs (members @ [x]) = (members @ [x]) @ ys" "subseq ys xs" by blast
    with False show ?thesis by auto
  qed
qed

lemma distinct_bucket_names: "distinct (map fst topicKeywords)"
  by (simp add: topicKeywords_def)

lemma distinct_matchedBuckets: "distinct (matchedBuckets s)"
  unfolding matchedBuckets_def using distinct_bucket_names by (rule distinct_map_filter)

subsection \<open>The search client\<close>

lemma processElement_url: "processElement env query src e = Some r \<Longrightarrow> url r \<noteq> []"
  by (auto simp: processElement_def Let_def split: option.splits if_splits)

lemma selectorLoop_url:
  "\<forall>r \<in> set results. url r \<noteq> [] \<Longrightarrow>
   \<forall>r \<in> set (selectorLoop env query src pg selectors results found). url r \<noteq> []"
proof (induction selectors arbitrary: results found)
  case Nil
  then show ?case by simp
next
  case (Cons selector selectors)
  let ?pushed =
    "List.map_filter (processElement env query src) (take (maxResults env) (pg selector))"
  have "\<forall>r \<in> set ?pushed. url r \<noteq> []"
    by (auto simp: map_filter_def dest: processElement_url)
  with Cons.prems have "\<forall>r \<in> set (results @ ?pushed). url r \<noteq> []"
    by auto
  from Cons.IH [OF this] Cons.prems show ?case
    by (simp add: Let_def)
qed

text \<open>Every result \<open>performDuckDuckGoSearch\<close> returns has a non-empty URL.\<close>

lemma performDuckDuckGoSearch_url:
  "performDuckDuckGoSearch env query src = Some results \<Longrightarrow> r \<in> set results \<Longrightarrow> url r \<noteq> []"
  using selectorLoop_url [of "[]" env query src _ resultSelectors False]
  by (auto simp: performDuckDuckGoSearch_def split: sum.splits)

text \<open>Where every topic has one query, a query that fails adds nothing and the loop goes on:
  the documentation search and the video search collect what each query found.\<close>

lemma topicLoop_single_query:
  assumes "\<And>topic. queriesFor topic = [query topic]"
  shows "topicLoop env src queriesFor topics searchResults =
           searchResults @
           concat (map (\<lambda>topic. case performDuckDuckGoSearch env (query topic) src of
                                   None \<Rightarrow> [] | Some results \<Rightarrow> results) topics)"
  by (induction topics arbitrary: searchResults) (auto simp: assms split: option.splits)

subsection \<open>The response parser\<close>

lemma truthy_present: "truthy v \<Longrightarrow> \<exists>w. v = Some w \<and> w \<noteq> JNull"
  by (cases v rule: truthy.cases) auto

lemma fallback_title:
  "getProperty (fallbackLearningPath response message) ''title''
     = Some (JString ''Custom Red Hat Learning Path'')"
  by (simp add: fallbackLearningPath_def)

lemma fallback_phases: "truthy (getProperty (fallbackLearningPath response message) ''phases'')"
  by (simp add: fallbackLearningPath_def)

lemma parseAttempt_Inr:
  "parseAttempt jp s = Inr parsed \<Longrightarrow>
     jp (cleanResponse s) = Inr parsed \<and> truthy (getProperty parsed ''title'') \<and>
     truthy (getProperty parsed ''phases'')"
  by (auto simp: parseAttempt_def split: sum.splits json.splits if_splits)

section \<open>Learning path generator: failures\<close>

text \<open>
  The claim C1 as stated fails where the model server is unavailable: with a server that
  refuses the connection, \<open>generateLearningPath\<close> does not return the fallback but throws to
  its caller.
\<close>

theorem generateLearningPath_unavailable_raises:
  "generateLearningPath exampleJsonParse ''llama3.2:latest'' downServer =
     Inl ''Failed to generate learning path: Ollama service unavailable: connect ECONNREFUSED 127.0.0.1:11434''"
  by code_simp

text \<open>
  C1 (amended). When the health check passes and the model answers with a text,
  \<open>generateLearningPath\<close> returns to its caller without throwing, and if the text cannot be
  parsed as JSON, or the parsed value is \<open>null\<close> or has no truthy \<open>title\<close> or no truthy
  \<open>phases\<close>, what it returns is the fixed fallback learning path annotated with the raw text
  and the message of the error. The fallback has the title \<open>Custom Red Hat Learning Path\<close>, the single phase 1
  \<open>Foundation Phase\<close> with no resources, and recommends the RHCSA certification. When the
  health check fails, or the call of the model fails, \<open>generateLearningPath\<close> throws an error
  whose message starts with \<open>Failed to generate learning path:\<close>.
\<close>

theorem generateLearningPath_failure_handling:
  \<open>(healthy (checkOllamaHealth model server) \<and> generate server = Inr response \<longrightarrow>
      (\<forall>message. jp (cleanResponse response) = Inl message \<longrightarrow>
         generateLearningPath jp model server = Inr (fallbackLearningPath response message)) \<and>
      (jp (cleanResponse response) = Inr JNull \<longrightarrow>
         generateLearningPath jp model server
           = Inr (fallbackLearningPath response
                    ''Cannot read properties of null (reading 'title')'')) \<and>
      (\<forall>parsed. jp (cleanResponse response) = Inr parsed \<and> parsed \<noteq> JNull \<and>
                (\<not> truthy (getProperty parsed ''title'') \<or>
                 \<not> truthy (getProperty parsed ''phases''))
         \<longrightarrow> generateLearningPath jp model server
               = Inr (fallbackLearningPath response ''Invalid learning path structure'')) \<and>
      (\<exists>path. generateLearningPath jp model server = Inr path)) \<and>
   (\<not> healthy (checkOllamaHealth model server) \<longrightarrow>
      (\<exists>reason. generateLearningPath jp model server =
         Inl (''Failed to generate learning path: Ollama service unavailable: '' @ reason))) \<and>
   (healthy (checkOllamaHealth model server) \<longrightarrow>
      (\<forall>reason. generate server = Inl reason \<longrightarrow>
         generateLearningPath jp model server
           = Inl (''Failed to generate learning path: '' @ reason))) \<and>
   getProperty (fallbackLearningPath response message) ''title''
     = Some (JString ''Custom Red Hat Learning Path'') \<and>
   (\<exists>phase. getProperty (fallbackLearningPath response message) ''phases''
              = Some (JArray [phase]) \<and>
       getProperty phase ''phase'' = Some (JNumber 1) \<and>
       getProperty phase ''title'' = Some (JString ''Foundation Phase'') \<and>
       getProperty phase ''resources'' = Some (JArray [])) \<and>
   (\<exists>cert. getProperty (fallbackLearningPath response message) ''certificationPath''
              = Some cert \<and>
       getProperty cert ''recommended''
         = Some (JArray [JString ''Red Hat Certified System Administrator (RHCSA)''])) \<and>
   getProperty (fallbackLearningPath response message) ''rawResponse''
     = Some (JString response) \<and>
   getProperty (fallbackLearningPath response message) ''parseError''
     = Some (JString message)\<close>
proof (intro conjI impI allI)
  show "generateLearningPath jp model server = Inr (fallbackLearningPath response m)"
    if "healthy (checkOllamaHealth model server) \<and> generate server = Inr response"
      and "jp (cleanResponse response) = Inl m" for m
    using that
    by (simp add: generateLearningPath_def parseLearningPathResponse_def parseAttempt_def)
  show \<open>generateLearningPath jp model server
          = Inr (fallbackLearningPath response
                   ''Cannot read properties of null (reading 'title')'')\<close>
    if "healthy (checkOllamaHealth model server) \<and> generate server = Inr response"
      and "jp (cleanResponse response) = Inr JNull"
    using that
    by (simp add: generateLearningPath_def parseLearningPathResponse_def parseAttempt_def)
  show "generateLearningPath jp model server
          = Inr (fallbackLearningPath response ''Invalid learning path structure'')"
    if "healthy (checkOllamaHealth model server) \<and> generate server = Inr response"
      and "jp (cleanResponse response) = Inr parsed \<and> parsed \<noteq> JNull \<and>
           (\<not> truthy (getProperty parsed ''title'') \<or> \<not> truthy (getProperty parsed ''phases''))"
    for parsed
    using that
    by (cases parsed)
       (auto simp: generateLearningPath_def parseLearningPathResponse_def parseAttempt_def)
  show "\<exists>path. generateLearningPath jp model server = Inr path"
    if "healthy (checkOllamaHealth model server) \<and> generate server = Inr response"
    using that by (simp add: generateLearningPath_def)
  show "\<exists>reason. generateLearningPath jp model server =
          Inl (''Failed to generate learning path: Ollama service unavailable: '' @ reason)"
    if "\<not> healthy (checkOllamaHealth model server)"
    using that by (simp add: generateLearningPath_def)
  show "generateLearningPath jp model server
          = Inl (''Failed to generate learning path: '' @ reason)"
    if "healthy (checkOllamaHealth model server)" "generate server = Inl reason" for reason
    using that by (simp add: generateLearningPath_def)
qed (simp_all add: fallbackLearningPath_def)

text \<open>The amended statement at a server that answers with prose, at one that answers with
  an object without \<open>phases\<close>, at one that answers \<open>null\<close>, and at one that is down.\<close>

theorem generateLearningPath_failure_handling_witness:
  \<open>healthy (checkOllamaHealth ''llama3.2:latest'' chattyServer) \<and>
   generate chattyServer = Inr ''I cannot help with that'' \<and>
   exampleJsonParse (cleanResponse ''I cannot help with that'')
     = Inl ''Unexpected token I in JSON at position 0'' \<and>
   generateLearningPath exampleJsonParse ''llama3.2:latest'' chattyServer =
     Inr (fallbackLearningPath ''I cannot help with that''
            ''Unexpected token I in JSON at position 0'') \<and>
   healthy (checkOllamaHealth ''llama3.2:latest'' terseServer) \<and>
   generate terseServer = Inr ''{"title":"OpenShift path"}'' \<and>
   exampleJsonParse (cleanResponse ''{"title":"OpenShift path"}'')
     = Inr (JObject [(''title'', JString ''OpenShift path'')]) \<and>
   generateLearningPath exampleJsonParse ''llama3.2:latest'' terseServer =
     Inr (fallbackLearningPath ''{"title":"OpenShift path"}''
            ''Invalid learning path structure'') \<and>
   healthy (checkOllamaHealth ''llama3.2:latest'' nullServer) \<and>
   generate nullServer = Inr ''null'' \<and>
   exampleJsonParse (cleanResponse ''null'') = Inr JNull \<and>
   generateLearningPath exampleJsonParse ''llama3.2:latest'' nullServer =
     Inr (fallbackLearningPath ''null'' ''Cannot read properties of null (reading 'title')'') \<and>
   \<not> healthy (checkOllamaHealth ''llama3.2:latest'' downServer) \<and>
   (\<exists>reason. generateLearningPath exampleJsonParse ''llama3.2:latest'' downServer =
         Inl (''Failed to generate learning path: Ollama service unavailable: '' @ reason))\<close>
proof -
  have h: "healthy (checkOllamaHealth ''llama3.2:latest'' chattyServer)"
          "healthy (checkOllamaHealth ''llama3.2:latest'' terseServer)"
          "healthy (checkOllamaHealth ''llama3.2:latest'' nullServer)"
    by code_simp+
  have g: "generate chattyServer = Inr ''I cannot help with that''"
          \<open>generate terseServer = Inr ''{"title":"OpenShift path"}''\<close>
          "generate nullServer = Inr ''null''"
    by (simp_all add: chattyServer_def terseServer_def nullServer_def)
  have n: "exampleJsonParse (cleanResponse ''null'') = Inr JNull"
    by code_simp
  have p: "exampleJsonParse (cleanResponse ''I cannot help with that'')
             = Inl ''Unexpected token I in JSON at position 0''"
    by code_simp
  have q: \<open>exampleJsonParse (cleanResponse ''{"title":"OpenShift path"}'')
             = Inr (JObject [(''title'', JString ''OpenShift path'')])\<close>
    by code_simp
  have t: "JObject [(''title'', JString ''OpenShift path'')] \<noteq> JNull"
          "\<not> truthy (getProperty (JObject [(''title'', JString ''OpenShift path'')]) ''phases'')"
    by simp_all
  have d: "\<not> healthy (checkOllamaHealth ''llama3.2:latest'' downServer)"
    by code_simp
  note T = generateLearningPath_failure_handling
  have c1: "generateLearningPath exampleJsonParse ''llama3.2:latest'' chattyServer =
     Inr (fallbackLearningPath ''I cannot help with that''
            ''Unexpected token I in JSON at position 0'')"
    by (rule T [of "''llama3.2:latest''" chattyServer "''I cannot help with that''"
                   exampleJsonParse,
                THEN conjunct1, THEN mp, OF conjI [OF h(1) g(1)],
                THEN conjunct1, THEN spec, THEN mp, OF p])
  have c2: \<open>generateLearningPath exampleJsonParse ''llama3.2:latest'' terseServer =
     Inr (fallbackLearningPath ''{"title":"OpenShift path"}''
            ''Invalid learning path structure'')\<close>
    by (rule T [of "''llama3.2:latest''" terseServer _ exampleJsonParse,
                THEN conjunct1, THEN mp, OF conjI [OF h(2) g(2)],
                THEN conjunct2, THEN conjunct2, THEN conjunct1, THEN spec, THEN mp,
                OF conjI [OF q conjI [OF t(1) disjI2 [OF t(2)]]]])
  have c3: \<open>generateLearningPath exampleJsonParse ''llama3.2:latest'' nullServer =
     Inr (fallbackLearningPath ''null'' ''Cannot read properties of null (reading 'title')'')\<close>
    by (rule T [of "''llama3.2:latest''" nullServer "''null''" exampleJsonParse,
                THEN conjunct1, THEN mp, OF conjI [OF h(3) g(3)],
                THEN conjunct2, THEN conjunct1, THEN mp, OF n])
  have c4: "\<exists>reason. generateLearningPath exampleJsonParse ''llama3.2:latest'' downServer =
         Inl (''Failed to generate learning path: Ollama service unavailable: '' @ reason)"
    by (rule T [of "''llama3.2:latest''" downServer _ exampleJsonParse,
                THEN conjunct2, THEN conjunct1, THEN mp, OF d])
  show ?thesis
    by (intro conjI h g p q n d c1 c2 c3 c4)
qed

section \<open>Deduplication\<close>

text \<open>
  C2. Deduplication is idempotent: for every list of content results, deduplicating the
  output of \<open>deduplicateResults\<close> again gives that output.
\<close>

theorem deduplicateResults_idempotent:
  "deduplicateResults h (deduplicateResults h xs) = deduplicateResults h xs"
proof -
  let ?ys = "deduplicateResults h xs"
  have "filter retainable ?ys = ?ys"
    using deduplicateResults_retainable [of _ h xs]
    by (simp add: filter_id_conv retainable_def)
  then have "uniqueResults h ?ys = ?ys"
    by (simp add: uniqueResults_keepFirst keepFirst_id deduplicateResults_distinct_keys)
  moreover have "sorted (map sortRank ?ys)"
    by (simp add: deduplicateResults_sort_key)
  ultimately show ?thesis
    by (metis deduplicateResults_sort_key sort_key_id_if_sorted)
qed

text \<open>Idempotence at a list with a repeated result.\<close>

theorem deduplicateResults_idempotent_witness:
  "deduplicateResults exampleHostname [communityVideo, officialArticle, communityVideo]
     = [officialArticle, communityVideo] \<and>
   deduplicateResults exampleHostname [officialArticle, communityVideo]
     = [officialArticle, communityVideo]"
proof -
  have a: "deduplicateResults exampleHostname [communityVideo, officialArticle, communityVideo]
             = [officialArticle, communityVideo]"
    by code_simp
  show ?thesis
    using deduplicateResults_idempotent
            [of exampleHostname "[communityVideo, officialArticle, communityVideo]"] a
    by simp
qed

text \<open>
  The claim C3 as stated fails: the output of \<open>deduplicateResults\<close> is sorted, so the
  survivors need not appear in the order of the input. A video of another site followed by an
  article of the official site come out in the opposite order.
\<close>

theorem deduplicateResults_reorders:
  "\<not> subseq (deduplicateResults exampleHostname [communityVideo, officialArticle])
       [communityVideo, officialArticle]"
  by code_simp

text \<open>
  C3 (amended). For every list of content results, the list the deduplication loop builds
  before the final sort keeps the input order; for each deduplication key (the first 50
  characters of the lowercased, alphanumeric-plus-space, whitespace-collapsed title, a hyphen,
  and the domain of the URL) it holds exactly the first result with that key among the results
  with a non-empty title and a non-empty URL. The output of \<open>deduplicateResults\<close> holds the
  same results, and among the results of one tier and one type priority it keeps the order of
  that list.
\<close>

theorem deduplicateResults_first_seen:
  "subseq (uniqueResults h xs) xs \<and>
   filter (\<lambda>r. dedupKey h r = k) (uniqueResults h xs) =
     take 1 (filter (\<lambda>r. dedupKey h r = k) (filter retainable xs)) \<and>
   mset (deduplicateResults h xs) = mset (uniqueResults h xs) \<and>
   filter (\<lambda>r. isRedHatDomain r = tier \<and> typeOrderOf (type r) = n) (deduplicateResults h xs) =
     filter (\<lambda>r. isRedHatDomain r = tier \<and> typeOrderOf (type r) = n) (uniqueResults h xs) \<and>
   dedupKey h r =
     take 50 (trim (collapseSpaces (filter (\<lambda>c. isLowerAlnum c \<or> isSpace c)
                                           (toLowerCase (title r)))))
       @ ''-'' @ extractDomain h (url r)"
proof (intro conjI)
  have "subseq (keepFirst (dedupKey h) {} (filter retainable xs)) (filter retainable xs)"
    by (rule keepFirst_subseq)
  then show "subseq (uniqueResults h xs) xs"
    unfolding uniqueResults_keepFirst
    by (meson subseq_filter_left subseq_order.order_trans)
  show "filter (\<lambda>r. dedupKey h r = k) (uniqueResults h xs) =
          take 1 (filter (\<lambda>r. dedupKey h r = k) (filter retainable xs))"
    unfolding uniqueResults_keepFirst by (rule keepFirst_per_key) simp
  show "mset (deduplicateResults h xs) = mset (uniqueResults h xs)"
    by (simp add: deduplicateResults_sort_key)
  show "filter (\<lambda>r. isRedHatDomain r = tier \<and> typeOrderOf (type r) = n)
          (deduplicateResults h xs) =
        filter (\<lambda>r. isRedHatDomain r = tier \<and> typeOrderOf (type r) = n) (uniqueResults h xs)"
  proof (cases "1 \<le> n \<and> n \<le> 6")
    case True
    then show ?thesis
      unfolding rank_filter_eq deduplicateResults_sort_key
      by (simp add: sort_key_stable)
  next
    case False
    have "\<not> (isRedHatDomain r = tier \<and> typeOrderOf (type r) = n)" for r
      using False rank_filter_eq [of r tier n] by blast
    then show ?thesis by simp
  qed
  show "dedupKey h r =
     take 50 (trim (collapseSpaces (filter (\<lambda>c. isLowerAlnum c \<or> isSpace c)
                                           (toLowerCase (title r)))))
       @ ''-'' @ extractDomain h (url r)"
    by (simp add: dedupKey_def normalizedTitle_def)
qed

text \<open>The amended statement at a list in which the video occurs twice.\<close>

theorem deduplicateResults_first_seen_witness:
  "uniqueResults exampleHostname [communityVideo, officialArticle, communityVideo]
     = [communityVideo, officialArticle] \<and>
   subseq [communityVideo, officialArticle] [communityVideo, officialArticle, communityVideo] \<and>
   mset (deduplicateResults exampleHostname [communityVideo, officialArticle, communityVideo])
     = mset [communityVideo, officialArticle] \<and>
   dedupKey exampleHostname communityVideo = ''containers video walkthrough-example.org''"
proof -
  have a: "uniqueResults exampleHostname [communityVideo, officialArticle, communityVideo]
             = [communityVideo, officialArticle]"
    by code_simp
  have b: "dedupKey exampleHostname communityVideo = ''containers video walkthrough-example.org''"
    by code_simp
  show ?thesis
    using deduplicateResults_first_seen
            [of exampleHostname "[communityVideo, officialArticle, communityVideo]"] a b
    by simp
qed

section \<open>The final sort\<close>

text \<open>
  The claim C8 as stated fails with the official domains of the allowlist: a documentation
  page of \<open>docs.ansible.com\<close>, which the allowlist of \<open>isRedHatRelated\<close> holds, is sorted after
  a video of a domain the allowlist does not hold.
\<close>

theorem deduplicateResults_allowlisted_after_other:
  "hasRedHatDomain (url ansibleDoc) \<and> \<not> hasRedHatDomain (url communityVideo) \<and>
   deduplicateResults exampleHostname [ansibleDoc, communityVideo] = [communityVideo, ansibleDoc]"
  by code_simp

text \<open>
  C8 (amended). The final sort of \<open>deduplicateResults\<close> places every result whose \<open>domain\<close>
  contains the text \<open>redhat.com\<close> before every result whose \<open>domain\<close> does not, and within each
  of the two tiers orders by the type priority video 1, training 2, documentation 3,
  article 4, pdf 5, any other type 6; in particular an article of \<open>www.redhat.com\<close> sorts
  before a video of a domain without that text. The first tier is decided by this test alone
  and not by the allowlist of official domains.
\<close>

theorem deduplicateResults_sorted:
  "(\<forall>r. isRedHatDomain r \<longleftrightarrow> includesStr (domain r) ''redhat.com'') \<and>
   (\<forall>i j. i < length (deduplicateResults h xs) \<and> j < length (deduplicateResults h xs) \<and>
          isRedHatDomain (deduplicateResults h xs ! i) \<and>
          \<not> isRedHatDomain (deduplicateResults h xs ! j) \<longrightarrow> i < j) \<and>
   (\<forall>i j. i < j \<and> j < length (deduplicateResults h xs) \<and>
          isRedHatDomain (deduplicateResults h xs ! i)
            = isRedHatDomain (deduplicateResults h xs ! j)
          \<longrightarrow> typeOrderOf (type (deduplicateResults h xs ! i))
                \<le> typeOrderOf (type (deduplicateResults h xs ! j))) \<and>
   map typeOrderOf [Video, Training, Documentation, Article, Pdf, Unknown]
     = [1, 2, 3, 4, 5, 6] \<and>
   deduplicateResults exampleHostname [communityVideo, officialArticle]
     = [officialArticle, communityVideo]"
proof (intro conjI allI impI)
  let ?out = "deduplicateResults h xs"
  have sorted: "sorted (map sortRank ?out)"
    by (simp add: deduplicateResults_sort_key)
  have mono: "sortRank (?out ! i) \<le> sortRank (?out ! j)" if "i \<le> j" "j < length ?out" for i j
    using sorted that by (simp add: sorted_iff_nth_mono)
  {
    fix i j
    assume a: "i < length ?out \<and> j < length ?out \<and> isRedHatDomain (?out ! i) \<and>
               \<not> isRedHatDomain (?out ! j)"
    show "i < j"
    proof (rule ccontr)
      assume "\<not> i < j"
      then have "sortRank (?out ! j) \<le> sortRank (?out ! i)"
        using a mono [of j i] by simp
      then show False using a sortRank_le_tier by blast
    qed
  }
  {
    fix i j
    assume a: "i < j \<and> j < length ?out \<and> isRedHatDomain (?out ! i) = isRedHatDomain (?out ! j)"
    then have "sortRank (?out ! i) \<le> sortRank (?out ! j)"
      using mono [of i j] by simp
    then show "typeOrderOf (type (?out ! i)) \<le> typeOrderOf (type (?out ! j))"
      using a sortRank_le_type by blast
  }
  show "map typeOrderOf [Video, Training, Documentation, Article, Pdf, Unknown]
          = [1, 2, 3, 4, 5, 6]"
    by (simp add: typeOrderOf_def typeOrder_def)
  show "deduplicateResults exampleHostname [communityVideo, officialArticle]
          = [officialArticle, communityVideo]"
    by code_simp
  show "isRedHatDomain r \<longleftrightarrow> includesStr (domain r) ''redhat.com''" for r
    by (simp add: isRedHatDomain_def)
qed

text \<open>The amended statement at the two positions of a concrete output.\<close>

theorem deduplicateResults_sorted_witness:
  "deduplicateResults exampleHostname [communityVideo, officialArticle, communityVideo] ! 0
     = officialArticle \<and>
   deduplicateResults exampleHostname [communityVideo, officialArticle, communityVideo] ! 1
     = communityVideo \<and>
   isRedHatDomain officialArticle \<and> \<not> isRedHatDomain communityVideo \<and> (0::nat) < 1"
proof -
  have a: "deduplicateResults exampleHostname [communityVideo, officialArticle, communityVideo]
             = [officialArticle, communityVideo]"
    by code_simp
  have b: "isRedHatDomain officialArticle" "\<not> isRedHatDomain communityVideo"
    by code_simp+
  show ?thesis
    using deduplicateResults_sorted
            [of exampleHostname "[communityVideo, officialArticle, communityVideo]"] a b
    by simp
qed

section \<open>Classification and relevance\<close>

text \<open>
  The claim C5 as stated fails for malformed URLs: \<open>determineContentType\<close> does not parse the
  URL, and the text \<open>not a url\<close>, which no URL parser accepts, is labelled \<open>article\<close>.
\<close>

theorem determineContentType_malformed_url:
  "typeLabel (determineContentType ''not a url'' []) = ''article''"
  by code_simp

text \<open>
  C5 (amended). \<open>determineContentType\<close> is a total function: for every pair of a URL and a
  title it returns exactly one of the six labels video, documentation, training, article,
  pdf, unknown; it returns \<open>unknown\<close> for the empty URL, and for no other URL.
\<close>

theorem determineContentType_total:
  "typeLabel (determineContentType u t) \<in> set contentTypeLabels \<and>
   distinct contentTypeLabels \<and> length contentTypeLabels = 6 \<and>
   (determineContentType u t = Unknown \<longleftrightarrow> u = [])"
  by (cases "determineContentType u t")
     (auto simp: contentTypeLabels_def determineContentType_def Let_def split: if_splits)

text \<open>The amended statement at a documentation URL and at the empty URL.\<close>

theorem determineContentType_total_witness:
  "typeLabel (determineContentType ''https://docs.redhat.com/en/documentation'' ''RHEL 9'')
     = ''documentation'' \<and>
   ''documentation'' \<in> set contentTypeLabels \<and>
   determineContentType [] ''RHEL 9'' = Unknown"
proof -
  have a: "typeLabel (determineContentType ''https://docs.redhat.com/en/documentation'' ''RHEL 9'')
             = ''documentation''"
    by code_simp
  show ?thesis
    using determineContentType_total [of "''https://docs.redhat.com/en/documentation''" "''RHEL 9''"]
          determineContentType_total [of "[]" "''RHEL 9''"] a
    by simp
qed

text \<open>
  The claim C6 as stated fails on the video-hosting domain: a product name in the description
  alone does not make a result relevant there, since the code looks for the two product names
  in the title only.
\<close>

theorem isRedHatRelated_differs_from_spec:
  "\<not> isRedHatRelated ''Intro'' ''https://www.youtube.com/watch?v=1'' ''openshift tutorial'' \<and>
   isRelated_spec ''Intro'' ''https://www.youtube.com/watch?v=1'' ''openshift tutorial''"
  by code_simp

text \<open>
  C6 (amended). For every title, URL and description, \<open>isRedHatRelated\<close> returns true if and
  only if the concatenated lowercase text contains one of the fixed Red Hat keywords or the
  lowercase URL contains one of the fixed official domains, except that when the URL contains
  \<open>youtube.com\<close> it returns true if and only if \<open>red hat\<close> occurs in the lowercase title or
  description, or \<open>openshift\<close> or \<open>ansible\<close> occurs in the lowercase title.
\<close>

theorem isRedHatRelated_iff:
  "isRedHatRelated t u d \<longleftrightarrow>
     (if includesStr u ''youtube.com''
      then includesStr (toLowerCase t) ''red hat'' \<or> includesStr (toLowerCase d) ''red hat'' \<or>
           includesStr (toLowerCase t) ''openshift'' \<or> includesStr (toLowerCase t) ''ansible''
      else list_ex (\<lambda>keyword. includesStr (toLowerCase (t @ '' '' @ u @ '' '' @ d)) keyword)
             redhatKeywords \<or>
           list_ex (\<lambda>domain. includesStr (toLowerCase u) domain) redhatDomains)"
proof -
  have kw: "''red hat'' \<in> set redhatKeywords" "''openshift'' \<in> set redhatKeywords"
    "''ansible'' \<in> set redhatKeywords"
    by (simp_all add: redhatKeywords_def)
  have "isRedHatRelated t u d \<longleftrightarrow>
     (if includesStr u ''youtube.com''
      then includesStr (toLowerCase t) ''red hat'' \<or> includesStr (toLowerCase d) ''red hat'' \<or>
           includesStr (toLowerCase t) ''openshift'' \<or> includesStr (toLowerCase t) ''ansible''
      else hasRedHatKeywords t u d \<or> hasRedHatDomain u)"
    unfolding isRedHatRelated_def
    using kw keyword_in_title keyword_in_description by auto
  then show ?thesis
    by (simp add: hasRedHatKeywords_def hasRedHatDomain_def)
qed

text \<open>The amended statement at a video whose title names the product, and at one whose
  description alone does.\<close>

theorem isRedHatRelated_iff_witness:
  "includesStr ''https://www.youtube.com/watch?v=2'' ''youtube.com'' \<and>
   isRedHatRelated ''OpenShift in 5 minutes'' ''https://www.youtube.com/watch?v=2'' ''A demo'' \<and>
   \<not> isRedHatRelated ''In 5 minutes'' ''https://www.youtube.com/watch?v=2'' ''An OpenShift demo''"
proof -
  have a: "includesStr ''https://www.youtube.com/watch?v=2'' ''youtube.com''"
    by code_simp
  have b: "includesStr (toLowerCase ''OpenShift in 5 minutes'') ''openshift''"
    by code_simp
  have c: "\<not> includesStr (toLowerCase ''In 5 minutes'') ''red hat''"
          "\<not> includesStr (toLowerCase ''An OpenShift demo'') ''red hat''"
          "\<not> includesStr (toLowerCase ''In 5 minutes'') ''openshift''"
          "\<not> includesStr (toLowerCase ''In 5 minutes'') ''ansible''"
    by code_simp+
  show ?thesis
    using isRedHatRelated_iff
            [of "''OpenShift in 5 minutes''" "''https://www.youtube.com/watch?v=2''" "''A demo''"]
          isRedHatRelated_iff
            [of "''In 5 minutes''" "''https://www.youtube.com/watch?v=2''" "''An OpenShift demo''"]
          a b c
    by simp
qed

section \<open>Topic extraction\<close>

text \<open>
  C7. \<open>extractTopics\<close> conforms to its keyword buckets: for every input text the result has
  no duplicates; when a bucket matches it is the list of the names of every bucket one of
  whose keywords occurs in the lowercased input; when no bucket matches it consists of the
  first three white-space-separated tokens of the lowercased input that are longer than 3
  characters and are not stopwords, in their order. In particular
  \<open>I want to learn OpenShift and Kubernetes\<close> yields exactly \<open>openshift\<close>, and
  \<open>purple elephants dancing\<close> yields exactly \<open>purple\<close>, \<open>elephants\<close>, \<open>dancing\<close>.
\<close>

theorem extractTopics_conforms:
  "distinct (extractTopics s) \<and>
   (matchedBuckets s \<noteq> [] \<longrightarrow> extractTopics s = matchedBuckets s) \<and>
   (matchedBuckets s = [] \<longrightarrow>
      set (extractTopics s) = set (take 3 (meaningfulWords (toLowerCase s))) \<and>
      subseq (extractTopics s) (take 3 (meaningfulWords (toLowerCase s)))) \<and>
   set (matchedBuckets s) =
     {topic. \<exists>keywords keyword. (topic, keywords) \<in> set topicKeywords \<and>
                keyword \<in> set keywords \<and> includesStr (toLowerCase s) keyword} \<and>
   meaningfulWords (toLowerCase s) =
     filter (\<lambda>word. length word > 3 \<and> word \<notin> set stopwords) (splitSpaces (toLowerCase s)) \<and>
   extractTopics ''I want to learn OpenShift and Kubernetes'' = [''openshift''] \<and>
   extractTopics ''purple elephants dancing'' = [''purple'', ''elephants'', ''dancing'']"
proof (intro conjI impI)
  show "distinct (extractTopics s)"
    by (simp add: extractTopics_def Let_def setOrder_distinct)
  show "extractTopics s = matchedBuckets s" if "matchedBuckets s \<noteq> []"
    using that distinct_matchedBuckets [of s]
    by (simp add: extractTopics_def Let_def matchLoop_matchedBuckets setOrder_id)
  show "set (extractTopics s) = set (take 3 (meaningfulWords (toLowerCase s)))"
    if "matchedBuckets s = []"
    using that by (simp add: extractTopics_def Let_def matchLoop_matchedBuckets setOrder_set)
  show "subseq (extractTopics s) (take 3 (meaningfulWords (toLowerCase s)))"
    if "matchedBuckets s = []"
    using that setOrder_subseq [of "take 3 (meaningfulWords (toLowerCase s))" "[]"]
    by (auto simp: extractTopics_def Let_def matchLoop_matchedBuckets)
  show "set (matchedBuckets s) =
     {topic. \<exists>keywords keyword. (topic, keywords) \<in> set topicKeywords \<and>
                keyword \<in> set keywords \<and> includesStr (toLowerCase s) keyword}"
    by (force simp: matchedBuckets_def bucketMatches_def list_ex_iff)
  show "meaningfulWords (toLowerCase s) =
     filter (\<lambda>word. length word > 3 \<and> word \<notin> set stopwords) (splitSpaces (toLowerCase s))"
    by (simp add: meaningfulWords_def conj_commute)
  show "extractTopics ''I want to learn OpenShift and Kubernetes'' = [''openshift'']"
    by code_simp
  show "extractTopics ''purple elephants dancing'' = [''purple'', ''elephants'', ''dancing'']"
    by code_simp
qed

text \<open>The statement at an input that matches two buckets, and at one that matches none and
  repeats a word.\<close>

theorem extractTopics_conforms_witness:
  "matchedBuckets ''Ansible playbooks on Linux'' \<noteq> [] \<and>
   extractTopics ''Ansible playbooks on Linux'' = [''ansible'', ''rhel''] \<and>
   matchedBuckets ''purple purple dancing'' = [] \<and>
   set (extractTopics ''purple purple dancing'') = {''purple'', ''dancing''}"
proof -
  have a: "matchedBuckets ''Ansible playbooks on Linux'' = [''ansible'', ''rhel'']"
    by code_simp
  have b: "matchedBuckets ''purple purple dancing'' = []"
    by code_simp
  have c: "take 3 (meaningfulWords (toLowerCase ''purple purple dancing''))
             = [''purple'', ''purple'', ''dancing'']"
    by code_simp
  show ?thesis
    using extractTopics_conforms [of "''Ansible playbooks on Linux''"]
          extractTopics_conforms [of "''purple purple dancing''"] a b c
    by auto
qed

section \<open>Search client: failures and the title invariant\<close>

text \<open>
  C4 at a failing input. The first training query for the topic \<open>openshift\<close> times out, so
  \<open>performDuckDuckGoSearch\<close> returns \<open>undefined\<close>; the second query of the topic would find a
  course, but spreading \<open>undefined\<close> throws inside the \<open>try\<close> of the topic, the second query is
  never sent, and the training search returns no result.
\<close>

theorem searchRedHatTraining_skips_second_query:
  "performDuckDuckGoSearch timeoutPlatform (trainingQueries ''openshift'' ! 0)
     ''Red Hat Training'' = None \<and>
   map title (the (performDuckDuckGoSearch timeoutPlatform (trainingQueries ''openshift'' ! 1)
                     ''Red Hat Training''))
     = [''Red Hat OpenShift Administration''] \<and>
   searchRedHatTraining timeoutPlatform [''openshift''] = []"
  by code_simp

text \<open>
  C9 at a failing input. The guard of \<open>performDuckDuckGoSearch\<close> tests the title before
  \<open>cleanTitle\<close> is applied to it: a block of the official site whose link text is \<open>>>\<close> passes
  the guard and is returned with an empty title.
\<close>

theorem performDuckDuckGoSearch_emits_empty_title:
  "performDuckDuckGoSearch arrowPlatform ''Red Hat'' ''Red Hat Docs'' =
     Some [\<lparr>title = [], url = ''https://www.redhat.com/en'', description = ''Red Hat home'',
             type = Article, source = ''Red Hat Docs'', searchQuery = ''Red Hat'',
             domain = ''www.redhat.com''\<rparr>]"
  by code_simp

section \<open>The response parser\<close>

text \<open>
  C10. \<open>parseLearningPathResponse\<close> is total on strings and never throws: for every input
  string it returns a value in which \<open>title\<close> and \<open>phases\<close> are both present and not null.
  The value is either what \<open>JSON.parse\<close> returned for the extracted text, accepted only with
  \<open>title\<close> and \<open>phases\<close> both truthy, or the fixed fallback object.
\<close>

theorem parseLearningPathResponse_total:
  "(\<exists>t p. getProperty (parseLearningPathResponse jp s) ''title'' = Some t \<and> t \<noteq> JNull \<and>
          getProperty (parseLearningPathResponse jp s) ''phases'' = Some p \<and> p \<noteq> JNull) \<and>
   ((jp (cleanResponse s) = Inr (parseLearningPathResponse jp s) \<and>
     truthy (getProperty (parseLearningPathResponse jp s) ''title'') \<and>
     truthy (getProperty (parseLearningPathResponse jp s) ''phases''))
    \<or> (\<exists>message. parseLearningPathResponse jp s = fallbackLearningPath s message))"
proof (cases "parseAttempt jp s")
  case (Inl message)
  then have "parseLearningPathResponse jp s = fallbackLearningPath s message"
    by (simp add: parseLearningPathResponse_def)
  then show ?thesis
    using fallback_title [of s message] truthy_present [OF fallback_phases [of s message]]
    by auto
next
  case (Inr parsed)
  then have eq: "parseLearningPathResponse jp s = parsed"
    by (simp add: parseLearningPathResponse_def)
  from parseAttempt_Inr [OF Inr] show ?thesis
    unfolding eq using truthy_present by blast
qed

text \<open>The statement at the empty string, with the fallback, and at a reply that wraps a JSON
  object in prose, with the parsed object.\<close>

theorem parseLearningPathResponse_total_witness:
  \<open>(\<exists>t p. getProperty (parseLearningPathResponse exampleJsonParse []) ''title'' = Some t \<and>
          t \<noteq> JNull \<and>
          getProperty (parseLearningPathResponse exampleJsonParse []) ''phases'' = Some p \<and>
          p \<noteq> JNull) \<and>
   parseLearningPathResponse exampleJsonParse [] =
     fallbackLearningPath [] ''Unexpected end of JSON input'' \<and>
   parseLearningPathResponse exampleJsonParse
       ''Sure! {"title":"OpenShift path","phases":[]} Enjoy.'' =
     JObject [(''title'', JString ''OpenShift path''), (''phases'', JArray [])]\<close>
proof -
  have a: \<open>parseLearningPathResponse exampleJsonParse [] =
     fallbackLearningPath [] ''Unexpected end of JSON input''\<close>
    by code_simp
  have b: \<open>parseLearningPathResponse exampleJsonParse
               ''Sure! {"title":"OpenShift path","phases":[]} Enjoy.'' =
     JObject [(''title'', JString ''OpenShift path''), (''phases'', JArray [])]\<close>
    by code_simp
  show ?thesis
    using parseLearningPathResponse_total [of exampleJsonParse "[]"] a b by blast
qed

end
